theory Spec2Isabelle
  imports Main
begin

section \<open>Values of the handler: errors, results, log lines\<close>

text \<open>
  A Go \<open>error\<close> is a value with a message. The constructor records which stage produced
  it; \<open>Error_msg\<close> is \<open>err.Error()\<close>.
\<close>

datatype error =
    InspectionError string
  | LookupError string
  | ResolutionError string
  | CertificateError string
  | TunnelNotFoundError string
  | TunnelOperationError string

fun Error_msg :: "error \<Rightarrow> string" where
  "Error_msg (InspectionError s) = s"
| "Error_msg (LookupError s) = s"
| "Error_msg (ResolutionError s) = s"
| "Error_msg (CertificateError s) = s"
| "Error_msg (TunnelNotFoundError s) = s"
| "Error_msg (TunnelOperationError s) = s"

text \<open>
  What a call of a Go function of this package ends in: a normal return without error
  (\<open>Ok\<close>), a returned error (\<open>Error\<close>), or a run-time panic (\<open>Panic\<close>), which no
  function of \<open>handler.go\<close> recovers from. A function returning only \<open>error\<close> has
  the type \<open>unit result\<close>, with \<open>Ok ()\<close> for \<open>nil\<close>.
\<close>

datatype 'a result = Ok 'a | Error error | Panic string

datatype log_entry = LogInfo string | LogError string

section \<open>Data of the Docker API and of the tunnel\<close>

text \<open>
  \<open>events.Message\<close>, \<open>types.ContainerJSON\<close> and its \<open>Config\<close>, restricted to the fields
  the handler reads. \<open>ContainerJSONBase\<close> and \<open>Config\<close> are pointers in the Docker
  types; an inspected container always carries both, and the records take them as present.
  \<open>Labels\<close> is a Go map: reading a missing key yields \<open>ok = false\<close>.
\<close>

record Message =
  Status :: string
  ID :: string

record ContainerConfig =
  Hostname :: string
  Labels :: "string \<rightharpoonup> string"

record ContainerJSON =
  ID :: string
  Config :: ContainerConfig

record TunnelConfig =
  IP :: string
  Hostname :: string
  Port :: string
  Protocol :: string

datatype Certificate = Cert string

record Tunnel =
  Config :: TunnelConfig
  Certificate :: Certificate

section \<open>The world outside the handler\<close>

text \<open>
  The collaborators the handler calls. \<open>Inspect\<close> is \<open>Client.Inspect\<close>;
  \<open>LookupHost k h\<close> is what the \<open>k\<close>-th call of \<open>net.LookupHost\<close> of the process
  answers for \<open>h\<close> (calls counted from 0), so that a resolver may fail some times and then
  succeed; \<open>EffectiveTLDPlusOne\<close> is the function of \<open>golang.org/x/net/publicsuffix\<close>;
  \<open>cert_store\<close> is the certificate store on the file system, by root domain;
  \<open>transport_start\<close> and \<open>transport_stop\<close> are the outcome of starting and of stopping
  the service of a tunnel (\<open>None\<close> for no error).
\<close>

record env =
  Inspect :: "string \<Rightarrow> error + ContainerJSON"
  LookupHost :: "nat \<Rightarrow> string \<Rightarrow> error + string list"
  EffectiveTLDPlusOne :: "string \<Rightarrow> error + string"
  cert_store :: "string \<rightharpoonup> Certificate"
  transport_start :: "Tunnel \<Rightarrow> error option"
  transport_stop :: "Tunnel \<Rightarrow> error option"

text \<open>
  The state the handler changes: the registry of tunnels by hostname (a Go map), the
  number of \<open>net.LookupHost\<close> calls made so far, the seconds spent in \<open>time.Sleep\<close>, the
  tunnels whose \<open>Start\<close> and \<open>Stop\<close> were invoked, in order, and the log.
\<close>

record world =
  registry :: "string \<rightharpoonup> Tunnel"
  lookups :: nat
  slept :: nat
  started :: "Tunnel list"
  stopped :: "Tunnel list"
  logs :: "log_entry list"

definition Infof :: "string \<Rightarrow> world \<Rightarrow> world" where
  "Infof s w = w\<lparr>logs := logs w @ [LogInfo s]\<rparr>"

definition Errorlog :: "string \<Rightarrow> world \<Rightarrow> world" where
  "Errorlog s w = w\<lparr>logs := logs w @ [LogError s]\<rparr>"

definition Sleep :: "nat \<Rightarrow> world \<Rightarrow> world" where
  "Sleep secs w = w\<lparr>slept := slept w + secs\<rparr>"

text \<open>The verb \<open>%d\<close> of \<open>fmt\<close> on a non-negative integer.\<close>

definition digit :: "nat \<Rightarrow> char" where
  "digit n = ''0123456789'' ! n"

function decimal :: "nat \<Rightarrow> string" where
  "decimal n = (if n < 10 then [digit n] else decimal (n div 10) @ [digit (n mod 10)])"
  by pat_completeness auto
termination
  by (relation "measure (\<lambda>n. n)") auto

declare decimal.simps [simp del]

section \<open>Tunnels and their registry\<close>

text \<open>
  \<open>handler.go\<close> calls \<open>NewTunnel\<close>, \<open>Tunnel.Start\<close>, \<open>Tunnel.Stop\<close>,
  \<open>GetTunnelForHost\<close> and \<open>FindCertificateForHost\<close>, which are defined in files of the
  repository that are not among the sources. The registry behind them is a map from
  hostname to tunnel.
\<close>

text \<open>
  Modelled from the spec: \<open>NewTunnel\<close> is missing from the sources. A tunnel is created
  from a configuration and a certificate.
\<close>

definition NewTunnel :: "TunnelConfig \<Rightarrow> Certificate \<Rightarrow> Tunnel" where
  "NewTunnel config certificate = \<lparr>Tunnel.Config = config, Certificate = certificate\<rparr>"

text \<open>
  Modelled from the spec: the registry operation \<open>Put\<close> is missing from the sources. It
  unconditionally replaces any existing entry of the hostname and does not stop a
  replaced tunnel.
\<close>

definition Put :: "string \<Rightarrow> Tunnel \<Rightarrow> world \<Rightarrow> world" where
  "Put hostname t w = w\<lparr>registry := (registry w)(hostname \<mapsto> t)\<rparr>"

text \<open>
  Modelled from the spec: the registry operation \<open>Remove\<close> is missing from the sources.
  It deletes the entry of the hostname if present and does nothing if absent.
\<close>

definition Remove :: "string \<Rightarrow> world \<Rightarrow> world" where
  "Remove hostname w = w\<lparr>registry := (registry w)(hostname := None)\<rparr>"

text \<open>
  Modelled from the spec: \<open>GetTunnelForHost\<close>, the registry operation \<open>Get\<close>, is missing
  from the sources. It fails with a not-found error (\<open>no tunnel for host\<close>) if no entry
  exists for the hostname.
\<close>

definition GetTunnelForHost :: "world \<Rightarrow> string \<Rightarrow> Tunnel result" where
  "GetTunnelForHost w hostname =
     (case registry w hostname of
        None \<Rightarrow> Error (TunnelNotFoundError ''no tunnel for host'')
      | Some t \<Rightarrow> Ok t)"

text \<open>
  Modelled from the spec: \<open>Tunnel.Start\<close> is missing from the sources. It begins serving
  and returns the failure of the transport as an error. \<open>handleStartEvent\<close> itself never
  touches the registry, so the insertion of the spec's start sequence is part of \<open>Start\<close>:
  entries are inserted only by a successful start, under the hostname of the tunnel's
  configuration (a tunnel's identity for lookup is its hostname); a failed start creates
  no entry. The field \<open>started\<close> records the invocation.
\<close>

definition Start :: "env \<Rightarrow> Tunnel \<Rightarrow> world \<Rightarrow> unit result \<times> world" where
  "Start e t w =
     (case transport_start e t of
        Some err \<Rightarrow> (Error err, w\<lparr>started := started w @ [t]\<rparr>)
      | None \<Rightarrow>
          (Ok (), Put (TunnelConfig.Hostname (Tunnel.Config t)) t
                    (w\<lparr>started := started w @ [t]\<rparr>)))"

text \<open>
  Modelled from the spec: \<open>Tunnel.Stop\<close> is missing from the sources. It terminates
  serving and returns the failure of the transport as an error. \<open>handleDieEvent\<close> itself
  never touches the registry, so the removal of the spec's stop sequence is part of
  \<open>Stop\<close>: the entry of the tunnel's hostname is removed only after a confirmed successful
  stop. The field \<open>stopped\<close> records the invocation.
\<close>

definition Stop :: "env \<Rightarrow> Tunnel \<Rightarrow> world \<Rightarrow> unit result \<times> world" where
  "Stop e t w =
     (case transport_stop e t of
        Some err \<Rightarrow> (Error err, w\<lparr>stopped := stopped w @ [t]\<rparr>)
      | None \<Rightarrow>
          (Ok (), Remove (TunnelConfig.Hostname (Tunnel.Config t))
                    (w\<lparr>stopped := stopped w @ [t]\<rparr>)))"

text \<open>
  Modelled from the spec: \<open>FindCertificateForHost\<close> is missing from the sources. It
  queries the certificate store for a certificate covering the root domain and fails if
  none exists.
\<close>

definition FindCertificateForHost :: "env \<Rightarrow> string \<Rightarrow> Certificate result" where
  "FindCertificateForHost e rootHostname =
     (case cert_store e rootHostname of
        None \<Rightarrow> Error (CertificateError ''no certificate for host'')
      | Some cert \<Rightarrow> Ok cert)"

section \<open>handler.go\<close>

definition heraHostname :: string where "heraHostname = ''hera.hostname''"
definition heraPort :: string where "heraPort = ''hera.port''"
definition heraIP :: string where "heraIP = ''hera.ip''"
definition heraProtocol :: string where "heraProtocol = ''hera.protocol''"

definition maxAttempts :: nat where "maxAttempts = 5"

text \<open>\<open>getLabel\<close>: the label's value, or the empty string when the key is missing.\<close>

definition getLabel :: "string \<Rightarrow> ContainerJSON \<Rightarrow> string" where
  "getLabel name container =
     (case Labels (ContainerJSON.Config container) name of
        None \<Rightarrow> []
      | Some v \<Rightarrow> v)"

text \<open>\<open>getRootDomain\<close> hands the hostname to \<open>publicsuffix.EffectiveTLDPlusOne\<close>.\<close>

definition getRootDomain :: "env \<Rightarrow> string \<Rightarrow> string result" where
  "getRootDomain e hostname =
     (case EffectiveTLDPlusOne e hostname of
        Inl err \<Rightarrow> Error err
      | Inr domain \<Rightarrow> Ok domain)"

definition getCertificate :: "env \<Rightarrow> string \<Rightarrow> Certificate result" where
  "getCertificate e hostname =
     (case getRootDomain e hostname of
        Error err \<Rightarrow> Error err
      | Panic p \<Rightarrow> Panic p
      | Ok rootHostname \<Rightarrow>
          (case FindCertificateForHost e rootHostname of
             Error err \<Rightarrow> Error err
           | Panic p \<Rightarrow> Panic p
           | Ok cert \<Rightarrow> Ok cert))"

text \<open>
  The slice \<open>container.ID[:12]\<close>: Go panics when the string has fewer than 12 bytes.
\<close>

definition slice12 :: "string \<Rightarrow> string result" where
  "slice12 s =
     (if length s < 12 then Panic ''slice bounds out of range'' else Ok (take 12 s))"

text \<open>The two formatted log lines of the start sequence.\<close>

definition retrying :: "nat \<Rightarrow> nat \<Rightarrow> string" where
  "retrying attempts bound =
     ''Unable to connect, retrying... ('' @ decimal attempts @ ''/'' @ decimal bound @ '')''"

definition connecting :: "string \<Rightarrow> string" where
  "connecting id12 = ''Container found, connecting to '' @ id12 @ ''...''"

text \<open>
  The loop of \<open>resolveHostname\<close>, entered with the attempts made so far. Each round
  counts the attempt and calls \<open>net.LookupHost\<close> on the container's configured hostname;
  on an error it sleeps two seconds, logs and goes round again; otherwise it returns
  \<open>resolved[0]\<close>, which panics on an empty slice. After the loop the error message slices
  the container ID.
\<close>

function resolveLoop ::
  "env \<Rightarrow> ContainerJSON \<Rightarrow> nat \<Rightarrow> world \<Rightarrow> string result \<times> world" where
  "resolveLoop e container attempts w =
     (if attempts < maxAttempts then
        (case LookupHost e (lookups w) (ContainerConfig.Hostname (ContainerJSON.Config container)) of
           Inl err \<Rightarrow>
             resolveLoop e container (attempts + 1)
               (Infof (retrying (attempts + 1) maxAttempts)
                  (Sleep 2 (w\<lparr>lookups := lookups w + 1\<rparr>)))
         | Inr resolved \<Rightarrow>
             (case resolved of
                [] \<Rightarrow> (Panic ''index out of range'', w\<lparr>lookups := lookups w + 1\<rparr>)
              | a # _ \<Rightarrow> (Ok a, w\<lparr>lookups := lookups w + 1\<rparr>)))
      else
        (case slice12 (ContainerJSON.ID container) of
           Ok id12 \<Rightarrow> (Error (ResolutionError (''Unable to connect to '' @ id12)), w)
         | Error err \<Rightarrow> (Error err, w)
         | Panic p \<Rightarrow> (Panic p, w)))"
  by pat_completeness auto
termination
  by (relation "measure (\<lambda>(e, container, attempts, w). maxAttempts - attempts)") auto

declare resolveLoop.simps [simp del]

definition resolveHostname :: "env \<Rightarrow> ContainerJSON \<Rightarrow> world \<Rightarrow> string result \<times> world" where
  "resolveHostname e container w = resolveLoop e container 0 w"

text \<open>
  \<open>handleStartEvent\<close>. The value of \<open>tunnel.Start()\<close> is not used: whatever \<open>Start\<close>
  returns, the function returns \<open>nil\<close>.
\<close>

definition handleStartEvent :: "env \<Rightarrow> Message \<Rightarrow> world \<Rightarrow> unit result \<times> world" where
  "handleStartEvent e event w =
     (case Inspect e (Message.ID event) of
        Inl err \<Rightarrow> (Error err, w)
      | Inr container \<Rightarrow>
          (let hostname = getLabel heraHostname container;
               port = getLabel heraPort container;
               supplied_ip = getLabel heraIP container;
               protocol = getLabel heraProtocol container
           in if hostname = [] \<or> port = [] then (Ok (), w)
              else
                (case slice12 (ContainerJSON.ID container) of
                   Panic p \<Rightarrow> (Panic p, w)
                 | Error err \<Rightarrow> (Error err, w)
                 | Ok id12 \<Rightarrow>
                     (case resolveHostname e container
                             (Infof (connecting id12) w) of
                        (Error err, w1) \<Rightarrow> (Error err, w1)
                      | (Panic p, w1) \<Rightarrow> (Panic p, w1)
                      | (Ok resolved_ip, w1) \<Rightarrow>
                          (let ip = (if supplied_ip \<noteq> [] then supplied_ip else resolved_ip);
                               protocol = (if protocol = [] then ''http'' else protocol)
                           in case getCertificate e hostname of
                                Error err \<Rightarrow> (Error err, w1)
                              | Panic p \<Rightarrow> (Panic p, w1)
                              | Ok cert \<Rightarrow>
                                  (let config = \<lparr>IP = ip, TunnelConfig.Hostname = hostname,
                                                  Port = port, Protocol = protocol\<rparr>;
                                       tunnel = NewTunnel config cert
                                   in (Ok (), snd (Start e tunnel w1))))))))"

text \<open>\<open>handleDieEvent\<close>.\<close>

definition handleDieEvent :: "env \<Rightarrow> Message \<Rightarrow> world \<Rightarrow> unit result \<times> world" where
  "handleDieEvent e event w =
     (case Inspect e (Message.ID event) of
        Inl err \<Rightarrow> (Error err, w)
      | Inr container \<Rightarrow>
          (let hostname = getLabel ''hera.hostname'' container
           in if hostname = [] then (Ok (), w)
              else
                (case GetTunnelForHost w hostname of
                   Error err \<Rightarrow> (Error err, w)
                 | Panic p \<Rightarrow> (Panic p, w)
                 | Ok tunnel \<Rightarrow>
                     (case Stop e tunnel w of
                        (Error err, w1) \<Rightarrow> (Error err, w1)
                      | (Panic p, w1) \<Rightarrow> (Panic p, w1)
                      | (Ok u, w1) \<Rightarrow> (Ok (), w1)))))"

text \<open>
  \<open>HandleEvent\<close> has no result in Go: it returns, or a panic of a sequence passes through
  it. An error of a sequence goes to \<open>log.Error\<close>.
\<close>

datatype completion = Returned | Panicked string

definition logged :: "unit result \<times> world \<Rightarrow> completion \<times> world" where
  "logged rw =
     (case rw of
        (Ok u, w) \<Rightarrow> (Returned, w)
      | (Error err, w) \<Rightarrow> (Returned, Errorlog (Error_msg err) w)
      | (Panic p, w) \<Rightarrow> (Panicked p, w))"

definition HandleEvent :: "env \<Rightarrow> Message \<Rightarrow> world \<Rightarrow> completion \<times> world" where
  "HandleEvent e event w =
     (if Status event = ''start'' then logged (handleStartEvent e event w)
      else if Status event = ''die'' then logged (handleDieEvent e event w)
      else (Returned, w))"

definition HandleContainer :: "env \<Rightarrow> string \<Rightarrow> world \<Rightarrow> unit result \<times> world" where
  "HandleContainer e ident w = handleStartEvent e \<lparr>Status = [], Message.ID = ident\<rparr> w"


section \<open>Registry invariant and runs of the handler\<close>

text \<open>Every entry of the registry is filed under the hostname of its own configuration.\<close>

definition registry_wf :: "(string \<rightharpoonup> Tunnel) \<Rightarrow> bool" where
  "registry_wf reg \<longleftrightarrow> (\<forall>h t. reg h = Some t \<longrightarrow> TunnelConfig.Hostname (Tunnel.Config t) = h)"

text \<open>
  The worlds the process can be in: it starts with an empty registry, and each call of
  \<open>HandleEvent\<close> or \<open>HandleContainer\<close>, in whatever environment, leads to the next.
\<close>

inductive reachable :: "world \<Rightarrow> bool" where
  initial: "registry w = Map.empty \<Longrightarrow> reachable w"
| event: "reachable w \<Longrightarrow> HandleEvent e ev w = (r, w') \<Longrightarrow> reachable w'"
| container: "reachable w \<Longrightarrow> HandleContainer e ident w = (r', w') \<Longrightarrow> reachable w'"

section \<open>Concrete containers, environments and worlds\<close>

text \<open>
  A container labelled for exposure, and variants: without the port label, with an
  \<open>hera.ip\<close> label, with an ID of three bytes.
\<close>

definition container0 :: ContainerJSON where
  "container0 =
     \<lparr>ContainerJSON.ID = ''4c01db0b339c8a1f'',
      ContainerJSON.Config =
        \<lparr>ContainerConfig.Hostname = ''4c01db0b339c'',
         Labels = [''hera.hostname'' \<mapsto> ''a.example.com'', ''hera.port'' \<mapsto> ''8080'']\<rparr>\<rparr>"

definition container_noport :: ContainerJSON where
  "container_noport =
     \<lparr>ContainerJSON.ID = ''4c01db0b339c8a1f'',
      ContainerJSON.Config =
        \<lparr>ContainerConfig.Hostname = ''4c01db0b339c'',
         Labels = [''hera.hostname'' \<mapsto> ''a.example.com'']\<rparr>\<rparr>"

definition container_ip :: ContainerJSON where
  "container_ip =
     \<lparr>ContainerJSON.ID = ''4c01db0b339c8a1f'',
      ContainerJSON.Config =
        \<lparr>ContainerConfig.Hostname = ''4c01db0b339c'',
         Labels = [''hera.hostname'' \<mapsto> ''a.example.com'', ''hera.port'' \<mapsto> ''8080'',
                   ''hera.ip'' \<mapsto> ''5.6.7.8'']\<rparr>\<rparr>"

definition container_short :: ContainerJSON where
  "container_short =
     \<lparr>ContainerJSON.ID = ''4c0'',
      ContainerJSON.Config =
        \<lparr>ContainerConfig.Hostname = ''4c0'',
         Labels = [''hera.hostname'' \<mapsto> ''a.example.com'', ''hera.port'' \<mapsto> ''8080'']\<rparr>\<rparr>"

text \<open>
  An environment in which everything succeeds: the four containers are found under the
  IDs \<open>c0\<close>, \<open>noport\<close>, \<open>ip\<close> and \<open>short\<close>, every lookup answers two addresses, the
  library reduces the three hostnames below, and the store holds a certificate for
  \<open>example.com\<close>.
\<close>

definition env_ok :: env where
  "env_ok =
     \<lparr>Inspect = (\<lambda>i. if i = ''c0'' then Inr container0
                     else if i = ''noport'' then Inr container_noport
                     else if i = ''ip'' then Inr container_ip
                     else if i = ''short'' then Inr container_short
                     else Inl (InspectionError ''No such container'')),
      LookupHost = (\<lambda>k h. Inr [''1.2.3.4'', ''10.0.0.7'']),
      EffectiveTLDPlusOne =
        (\<lambda>h. if h = ''a.example.com'' then Inr ''example.com''
             else if h = ''example.co.uk'' \<or> h = ''api.example.co.uk'' then Inr ''example.co.uk''
             else Inl (CertificateError ''publicsuffix: cannot derive eTLD+1'')),
      cert_store = [''example.com'' \<mapsto> Cert ''example.com''],
      transport_start = (\<lambda>t. None),
      transport_stop = (\<lambda>t. None)\<rparr>"

text \<open>The resolver fails twice, then answers.\<close>

definition env_flaky :: env where
  "env_flaky =
     env_ok\<lparr>LookupHost := (\<lambda>k h. if k < 2 then Inl (LookupError ''no such host'')
                                 else Inr [''1.2.3.4'', ''10.0.0.7''])\<rparr>"

text \<open>The resolver fails six times, then answers.\<close>

definition env_late :: env where
  "env_late =
     env_ok\<lparr>LookupHost := (\<lambda>k h. if k < 6 then Inl (LookupError ''no such host'')
                                 else Inr [''1.2.3.4'', ''10.0.0.7''])\<rparr>"

text \<open>The resolver always fails.\<close>

definition env_down :: env where
  "env_down = env_ok\<lparr>LookupHost := (\<lambda>k h. Inl (LookupError ''no such host''))\<rparr>"

text \<open>The store holds no certificate.\<close>

definition env_nocert :: env where
  "env_nocert = env_ok\<lparr>cert_store := Map.empty\<rparr>"

text \<open>The transport fails to start, and fails to stop, every tunnel.\<close>

definition env_nostart :: env where
  "env_nostart = env_ok\<lparr>transport_start := (\<lambda>t. Some (TunnelOperationError ''start failed''))\<rparr>"

definition env_nostop :: env where
  "env_nostop = env_ok\<lparr>transport_stop := (\<lambda>t. Some (TunnelOperationError ''stop failed''))\<rparr>"

definition world0 :: world where
  "world0 = \<lparr>registry = Map.empty, lookups = 0, slept = 0, started = [], stopped = [], logs = []\<rparr>"

definition tunnel0 :: Tunnel where
  "tunnel0 =
     NewTunnel \<lparr>IP = ''1.2.3.4'', TunnelConfig.Hostname = ''a.example.com'', Port = ''8080'',
                Protocol = ''http''\<rparr> (Cert ''example.com'')"

text \<open>The world after the container \<open>c0\<close> has been started in \<open>env_ok\<close>.\<close>

definition world1 :: world where
  "world1 =
     \<lparr>registry = [''a.example.com'' \<mapsto> tunnel0], lookups = 1, slept = 0, started = [tunnel0],
      stopped = [], logs = [LogInfo (connecting ''4c01db0b339c'')]\<rparr>"

section \<open>The retry loop\<close>

lemma resolveLoop_frame:
  "resolveLoop e c a w = (r, w') \<Longrightarrow>
     registry w' = registry w \<and> started w' = started w \<and> stopped w' = stopped w \<and>
     lookups w \<le> lookups w' \<and> lookups w' \<le> lookups w + (maxAttempts - a)"
proof (induction e c a w arbitrary: r w' rule: resolveLoop.induct)
  case (1 e c a w)
  show ?case
  proof (cases "a < maxAttempts")
    case False
    with "1.prems" show ?thesis
      by (subst (asm) resolveLoop.simps) (auto split: result.splits)
  next
    case True
    show ?thesis
    proof (cases "LookupHost e (lookups w) (ContainerConfig.Hostname (ContainerJSON.Config c))")
      case (Inl err)
      with True "1.prems" have
        "resolveLoop e c (a + 1)
           (Infof (retrying (a + 1) maxAttempts)
                  (Sleep 2 (w\<lparr>lookups := lookups w + 1\<rparr>))) = (r, w')"
        by (subst (asm) resolveLoop.simps) simp
      from "1.IH" [OF True Inl this] True show ?thesis
        by (auto simp: Infof_def Sleep_def)
    next
      case (Inr resolved)
      with True "1.prems" show ?thesis
        by (subst (asm) resolveLoop.simps) (auto split: list.splits)
    qed
  qed
qed

lemma resolveLoop_fails:
  "\<forall>i<N. isl (LookupHost e (lookups w + i) (ContainerConfig.Hostname (ContainerJSON.Config c))) \<Longrightarrow>
   a + N \<le> maxAttempts \<Longrightarrow>
   \<exists>w1. resolveLoop e c a w = resolveLoop e c (a + N) w1 \<and>
        lookups w1 = lookups w + N \<and> slept w1 = slept w + 2 * N"
proof (induction N arbitrary: a w)
  case 0
  show ?case by (rule exI [of _ w]) simp
next
  case (Suc N)
  let ?h = "ContainerConfig.Hostname (ContainerJSON.Config c)"
  define w2 where "w2 = Infof (retrying (a + 1) maxAttempts)
                  (Sleep 2 (w\<lparr>lookups := lookups w + 1\<rparr>))"
  from Suc.prems(1) have "isl (LookupHost e (lookups w) ?h)" by force
  then obtain err where f: "LookupHost e (lookups w) ?h = Inl err"
    by (cases "LookupHost e (lookups w) ?h") auto
  from Suc.prems(2) have lt: "a < maxAttempts" by simp
  have step: "resolveLoop e c a w = resolveLoop e c (a + 1) w2"
    using f lt unfolding w2_def by (subst resolveLoop.simps) simp
  have l2: "lookups w2 = lookups w + 1" and s2: "slept w2 = slept w + 2"
    by (simp_all add: w2_def Infof_def Sleep_def)
  have "\<forall>i<N. isl (LookupHost e (lookups w2 + i) ?h)"
  proof (intro allI impI)
    fix i assume "i < N"
    then have "Suc i < Suc N" by simp
    with Suc.prems(1) have "isl (LookupHost e (lookups w + Suc i) ?h)" by blast
    then show "isl (LookupHost e (lookups w2 + i) ?h)" by (simp add: l2)
  qed
  moreover from Suc.prems(2) have "(a + 1) + N \<le> maxAttempts" by simp
  ultimately obtain w1 where
    "resolveLoop e c (a + 1) w2 = resolveLoop e c (a + 1 + N) w1"
    "lookups w1 = lookups w2 + N" "slept w1 = slept w2 + 2 * N"
    using Suc.IH [of w2 "a + 1"] by blast
  then show ?case
    by (intro exI [of _ w1]) (simp add: step l2 s2)
qed

lemma resolveLoop_exhausted:
  "resolveLoop e c maxAttempts w =
     (if length (ContainerJSON.ID c) < 12 then (Panic ''slice bounds out of range'', w)
      else (Error (ResolutionError (''Unable to connect to '' @ take 12 (ContainerJSON.ID c))), w))"
  by (subst resolveLoop.simps) (simp add: slice12_def)

lemma resolveLoop_answer:
  "a < maxAttempts \<Longrightarrow>
   LookupHost e (lookups w) (ContainerConfig.Hostname (ContainerJSON.Config c)) = Inr (x # xs) \<Longrightarrow>
   resolveLoop e c a w = (Ok x, w\<lparr>lookups := lookups w + 1\<rparr>)"
  by (subst resolveLoop.simps) simp

text \<open>
  Claim C4. \<open>resolveHostname\<close> makes at most 5 calls of \<open>net.LookupHost\<close> and sleeps
  2 seconds after each failed one. If the resolver fails \<open>N\<close> times and then answers a
  list with first address \<open>a\<close>, the resolution succeeds iff \<open>N < 5\<close>; it then returns \<open>a\<close>
  after exactly \<open>N + 1\<close> calls and \<open>2 * N\<close> seconds of sleep. If the first 5 calls fail, it
  gives up after exactly 5 calls and 10 seconds: it returns the error
  \<open>Unable to connect to\<close> followed by the first 12 bytes of the container ID, and, when the
  ID has fewer than 12 bytes, panics while building that message.
\<close>

theorem resolveHostname_attempts:
  assumes run: "resolveHostname e c w = (r, w')"
  shows "lookups w' \<le> lookups w + 5 \<and>
    ((\<forall>i<N. isl (LookupHost e (lookups w + i) (ContainerConfig.Hostname (ContainerJSON.Config c)))) \<and>
      LookupHost e (lookups w + N) (ContainerConfig.Hostname (ContainerJSON.Config c)) = Inr (a # as)
      \<longrightarrow> ((\<exists>x. r = Ok x) \<longleftrightarrow> N < 5) \<and>
          (N < 5 \<longrightarrow> r = Ok a \<and> lookups w' = lookups w + N + 1 \<and> slept w' = slept w + 2 * N) \<and>
          (5 \<le> N \<longrightarrow> lookups w' = lookups w + 5 \<and> slept w' = slept w + 2 * 5)) \<and>
    ((\<forall>i<5. isl (LookupHost e (lookups w + i) (ContainerConfig.Hostname (ContainerJSON.Config c))))
      \<longrightarrow> r = (if length (ContainerJSON.ID c) < 12 then Panic ''slice bounds out of range''
               else Error (ResolutionError (''Unable to connect to '' @ take 12 (ContainerJSON.ID c)))) \<and>
          lookups w' = lookups w + 5 \<and> slept w' = slept w + 2 * 5)"
proof -
  let ?h = "ContainerConfig.Hostname (ContainerJSON.Config c)"
  from run have loop: "resolveLoop e c 0 w = (r, w')"
    by (simp add: resolveHostname_def)
  have bound: "lookups w' \<le> lookups w + 5"
    using resolveLoop_frame [OF loop] by (simp add: maxAttempts_def)
  have allfail: "r = (if length (ContainerJSON.ID c) < 12 then Panic ''slice bounds out of range''
               else Error (ResolutionError (''Unable to connect to '' @ take 12 (ContainerJSON.ID c)))) \<and>
          lookups w' = lookups w + 5 \<and> slept w' = slept w + 2 * 5"
    if fails: "\<forall>i<5. isl (LookupHost e (lookups w + i) ?h)"
  proof -
    from resolveLoop_fails [of 5 e w c 0] fails obtain w1 where
      w1: "resolveLoop e c 0 w = resolveLoop e c 5 w1" "lookups w1 = lookups w + 5"
          "slept w1 = slept w + 2 * 5"
      by (auto simp: maxAttempts_def)
    from w1(1) loop have "resolveLoop e c maxAttempts w1 = (r, w')"
      by (simp add: maxAttempts_def)
    then show ?thesis using w1(2,3)
      by (auto simp: resolveLoop_exhausted split: if_splits)
  qed
  have success: "r = Ok a \<and> lookups w' = lookups w + N + 1 \<and> slept w' = slept w + 2 * N"
    if fails: "\<forall>i<N. isl (LookupHost e (lookups w + i) ?h)"
      and ans: "LookupHost e (lookups w + N) ?h = Inr (a # as)" and lt: "N < 5"
  proof -
    from resolveLoop_fails [of N e w c 0] fails lt obtain w1 where
      w1: "resolveLoop e c 0 w = resolveLoop e c N w1" "lookups w1 = lookups w + N"
          "slept w1 = slept w + 2 * N"
      by (auto simp: maxAttempts_def)
    from lt have "N < maxAttempts" by (simp add: maxAttempts_def)
    moreover from ans w1(2) have "LookupHost e (lookups w1) ?h = Inr (a # as)" by simp
    ultimately have "resolveLoop e c N w1 = (Ok a, w1\<lparr>lookups := lookups w1 + 1\<rparr>)"
      by (rule resolveLoop_answer)
    with w1 loop show ?thesis by auto
  qed
  have late: "(\<forall>x. r \<noteq> Ok x) \<and> lookups w' = lookups w + 5 \<and> slept w' = slept w + 2 * 5"
    if fails: "\<forall>i<N. isl (LookupHost e (lookups w + i) ?h)" and ge: "5 \<le> N"
  proof -
    from fails ge have "\<forall>i<5. isl (LookupHost e (lookups w + i) ?h)" by auto
    from allfail [OF this] show ?thesis by (auto split: if_splits)
  qed
  show ?thesis
  proof (intro conjI impI)
    show "lookups w' \<le> lookups w + 5" by (rule bound)
  next
    assume h: "(\<forall>i<N. isl (LookupHost e (lookups w + i) ?h)) \<and>
      LookupHost e (lookups w + N) ?h = Inr (a # as)"
    show "(\<exists>x. r = Ok x) \<longleftrightarrow> N < 5"
      using success late h by (cases "N < 5") auto
  next
    assume h: "(\<forall>i<N. isl (LookupHost e (lookups w + i) ?h)) \<and>
      LookupHost e (lookups w + N) ?h = Inr (a # as)" and "N < 5"
    then show "r = Ok a" "lookups w' = lookups w + N + 1" "slept w' = slept w + 2 * N"
      using success by auto
  next
    assume h: "(\<forall>i<N. isl (LookupHost e (lookups w + i) ?h)) \<and>
      LookupHost e (lookups w + N) ?h = Inr (a # as)" and "5 \<le> N"
    then show "lookups w' = lookups w + 5" "slept w' = slept w + 2 * 5"
      using late by auto
  next
    assume "\<forall>i<5. isl (LookupHost e (lookups w + i) ?h)"
    from allfail [OF this]
    show "r = (if length (ContainerJSON.ID c) < 12 then Panic ''slice bounds out of range''
               else Error (ResolutionError (''Unable to connect to '' @ take 12 (ContainerJSON.ID c))))"
      "lookups w' = lookups w + 5" "slept w' = slept w + 2 * 5" by auto
  qed
qed

theorem resolveHostname_attempts_witness:
  "fst (resolveHostname env_flaky container0 world0) = Ok ''1.2.3.4'' \<and>
   lookups (snd (resolveHostname env_flaky container0 world0)) = 3 \<and>
   slept (snd (resolveHostname env_flaky container0 world0)) = 4 \<and>
   (\<forall>x. fst (resolveHostname env_late container0 world0) \<noteq> Ok x) \<and>
   lookups (snd (resolveHostname env_late container0 world0)) = 5 \<and>
   fst (resolveHostname env_down container0 world0) =
     Error (ResolutionError ''Unable to connect to 4c01db0b339c'') \<and>
   lookups (snd (resolveHostname env_down container0 world0)) = 5 \<and>
   slept (snd (resolveHostname env_down container0 world0)) = 10"
proof -
  have flaky: "(\<forall>i<2. isl (LookupHost env_flaky (lookups world0 + i)
                  (ContainerConfig.Hostname (ContainerJSON.Config container0)))) \<and>
     LookupHost env_flaky (lookups world0 + 2)
       (ContainerConfig.Hostname (ContainerJSON.Config container0)) = Inr [''1.2.3.4'', ''10.0.0.7'']"
    by (simp add: env_flaky_def env_ok_def world0_def)
  have late: "(\<forall>i<6. isl (LookupHost env_late (lookups world0 + i)
                  (ContainerConfig.Hostname (ContainerJSON.Config container0)))) \<and>
     LookupHost env_late (lookups world0 + 6)
       (ContainerConfig.Hostname (ContainerJSON.Config container0)) = Inr [''1.2.3.4'', ''10.0.0.7'']"
    by (simp add: env_late_def env_ok_def world0_def)
  have down: "\<forall>i<5. isl (LookupHost env_down (lookups world0 + i)
                  (ContainerConfig.Hostname (ContainerJSON.Config container0)))"
    by (simp add: env_down_def env_ok_def)
  have l0: "lookups world0 = 0" "slept world0 = 0" by (simp_all add: world0_def)
  have id0: "\<not> length (ContainerJSON.ID container0) < 12"
    "take 12 (ContainerJSON.ID container0) = ''4c01db0b339c''"
    by (simp_all add: container0_def)
  show ?thesis
    using
      resolveHostname_attempts [where e = env_flaky and c = container0 and w = world0 and N = 2
        and a = "''1.2.3.4''" and as = "[''10.0.0.7'']", OF surjective_pairing]
      resolveHostname_attempts [where e = env_late and c = container0 and w = world0 and N = 6
        and a = "''1.2.3.4''" and as = "[''10.0.0.7'']", OF surjective_pairing]
      resolveHostname_attempts [where e = env_down and c = container0 and w = world0 and N = 0
        and a = "''1.2.3.4''" and as = "[]", OF surjective_pairing]
      flaky late down
    by (simp add: l0 id0)
qed

section \<open>The start sequence\<close>

lemma getLabel_empty_iff:
  "getLabel name c = [] \<longleftrightarrow>
     Labels (ContainerJSON.Config c) name = None \<or> Labels (ContainerJSON.Config c) name = Some []"
  by (simp add: getLabel_def split: option.splits)

lemma resolveHostname_frame:
  "resolveHostname e c w = (r, w') \<Longrightarrow>
     registry w' = registry w \<and> started w' = started w \<and> stopped w' = stopped w"
  using resolveLoop_frame [of e c 0 w r w'] by (simp add: resolveHostname_def)

text \<open>
  What the start sequence does for an opted-in container whose ID has at least 12 bytes,
  stage by stage.
\<close>

lemma handleStartEvent_opted_in:
  assumes "Inspect e (Message.ID ev) = Inr c"
    and "getLabel heraHostname c \<noteq> []" and "getLabel heraPort c \<noteq> []"
    and "12 \<le> length (ContainerJSON.ID c)"
  shows "handleStartEvent e ev w =
     (case resolveHostname e c (Infof (connecting (take 12 (ContainerJSON.ID c))) w) of
        (Error err, w1) \<Rightarrow> (Error err, w1)
      | (Panic p, w1) \<Rightarrow> (Panic p, w1)
      | (Ok resolved_ip, w1) \<Rightarrow>
          (case getCertificate e (getLabel heraHostname c) of
             Error err \<Rightarrow> (Error err, w1)
           | Panic p \<Rightarrow> (Panic p, w1)
           | Ok cert \<Rightarrow>
               (Ok (), snd (Start e
                  (NewTunnel
                     \<lparr>IP = (if getLabel heraIP c \<noteq> [] then getLabel heraIP c else resolved_ip),
                      TunnelConfig.Hostname = getLabel heraHostname c,
                      Port = getLabel heraPort c,
                      Protocol = (if getLabel heraProtocol c = [] then ''http''
                                  else getLabel heraProtocol c)\<rparr> cert) w1))))"
  using assms
  by (simp add: handleStartEvent_def slice12_def Let_def split: prod.splits result.splits)

lemma handleStartEvent_short_id:
  assumes "Inspect e (Message.ID ev) = Inr c"
    and "getLabel heraHostname c \<noteq> []" and "getLabel heraPort c \<noteq> []"
    and "length (ContainerJSON.ID c) < 12"
  shows "handleStartEvent e ev w = (Panic ''slice bounds out of range'', w)"
  using assms by (simp add: handleStartEvent_def slice12_def Let_def)

lemma Start_frame:
  "started (snd (Start e t w)) = started w @ [t] \<and> stopped (snd (Start e t w)) = stopped w \<and>
   registry (snd (Start e t w)) =
     (if transport_start e t = None then (registry w)(TunnelConfig.Hostname (Tunnel.Config t) \<mapsto> t)
      else registry w)"
  by (simp add: Start_def Put_def split: option.splits)

text \<open>
  Claim C5. For every container whose \<open>hera.hostname\<close> label or \<open>hera.port\<close> label is
  absent or empty, the start sequence returns \<open>nil\<close> and leaves the whole world as it
  was: no tunnel is started, the registry is not touched, nothing is looked up or logged.
\<close>

theorem handleStartEvent_not_opted_in:
  assumes "Inspect e (Message.ID ev) = Inr c"
    and "Labels (ContainerJSON.Config c) ''hera.hostname'' = None
         \<or> Labels (ContainerJSON.Config c) ''hera.hostname'' = Some []
         \<or> Labels (ContainerJSON.Config c) ''hera.port'' = None
         \<or> Labels (ContainerJSON.Config c) ''hera.port'' = Some []"
  shows "handleStartEvent e ev w = (Ok (), w)"
proof -
  from assms(2) have "getLabel heraHostname c = [] \<or> getLabel heraPort c = []"
    unfolding getLabel_empty_iff heraHostname_def heraPort_def by blast
  with assms(1) show ?thesis
    by (auto simp: handleStartEvent_def Let_def)
qed

theorem handleStartEvent_not_opted_in_witness:
  "Inspect env_ok (Message.ID \<lparr>Status = ''start'', Message.ID = ''noport''\<rparr>) = Inr container_noport \<and>
   Labels (ContainerJSON.Config container_noport) ''hera.port'' = None \<and>
   handleStartEvent env_ok \<lparr>Status = ''start'', Message.ID = ''noport''\<rparr> world0 = (Ok (), world0)"
proof -
  have i: "Inspect env_ok (Message.ID \<lparr>Status = ''start'', Message.ID = ''noport''\<rparr>)
             = Inr container_noport"
    by (simp add: env_ok_def)
  have l: "Labels (ContainerJSON.Config container_noport) ''hera.port'' = None"
    by (simp add: container_noport_def)
  from handleStartEvent_not_opted_in [OF i, of world0] l i show ?thesis by simp
qed

text \<open>
  Claim C10. For every opted-in container whose ID has fewer than 12 bytes the start
  sequence panics at the slice \<open>container.ID[:12]\<close> of its first log line, before anything
  is resolved or logged; \<open>HandleEvent\<close> does not recover, so the panic passes through it.
  The same slice in the error message of \<open>resolveHostname\<close> panics when five lookups have
  failed for such a container.
\<close>

theorem handleStartEvent_short_id_panics:
  assumes "Inspect e (Message.ID ev) = Inr c"
    and "getLabel heraHostname c \<noteq> []" and "getLabel heraPort c \<noteq> []"
    and "length (ContainerJSON.ID c) < 12"
  shows "handleStartEvent e ev w = (Panic ''slice bounds out of range'', w) \<and>
    (Status ev = ''start'' \<longrightarrow> HandleEvent e ev w = (Panicked ''slice bounds out of range'', w)) \<and>
    ((\<forall>i<5. isl (LookupHost e (lookups w + i) (ContainerConfig.Hostname (ContainerJSON.Config c))))
       \<longrightarrow> fst (resolveHostname e c w) = Panic ''slice bounds out of range'')"
proof (intro conjI impI)
  show p: "handleStartEvent e ev w = (Panic ''slice bounds out of range'', w)"
    using assms by (rule handleStartEvent_short_id)
  show "HandleEvent e ev w = (Panicked ''slice bounds out of range'', w)" if "Status ev = ''start''"
    using that p by (simp add: HandleEvent_def logged_def)
next
  assume fails: "\<forall>i<5. isl (LookupHost e (lookups w + i)
                    (ContainerConfig.Hostname (ContainerJSON.Config c)))"
  from resolveLoop_fails [of 5 e w c 0] fails obtain w1 where
    "resolveLoop e c 0 w = resolveLoop e c maxAttempts w1"
    by (auto simp: maxAttempts_def)
  with assms(4) show "fst (resolveHostname e c w) = Panic ''slice bounds out of range''"
    by (simp add: resolveHostname_def resolveLoop_exhausted)
qed

theorem handleStartEvent_short_id_panics_witness:
  "length (ContainerJSON.ID container_short) < 12 \<and>
   handleStartEvent env_down \<lparr>Status = ''start'', Message.ID = ''short''\<rparr> world0
     = (Panic ''slice bounds out of range'', world0) \<and>
   HandleEvent env_down \<lparr>Status = ''start'', Message.ID = ''short''\<rparr> world0
     = (Panicked ''slice bounds out of range'', world0) \<and>
   fst (resolveHostname env_down container_short world0) = Panic ''slice bounds out of range''"
proof -
  have i: "Inspect env_down (Message.ID \<lparr>Status = ''start'', Message.ID = ''short''\<rparr>)
             = Inr container_short"
    by (simp add: env_down_def env_ok_def)
  have h: "getLabel heraHostname container_short \<noteq> []"
    and p: "getLabel heraPort container_short \<noteq> []"
    by (simp_all add: getLabel_def heraHostname_def heraPort_def container_short_def)
  have s: "length (ContainerJSON.ID container_short) < 12"
    by (simp add: container_short_def)
  have d: "\<forall>i<5. isl (LookupHost env_down (lookups world0 + i)
                  (ContainerConfig.Hostname (ContainerJSON.Config container_short)))"
    by (simp add: env_down_def env_ok_def)
  from handleStartEvent_short_id_panics [OF i h p s, of world0] d s show ?thesis by simp
qed

lemma resolveLoop_panic_cause:
  "fst (resolveLoop e c a w) = Panic p \<Longrightarrow>
     length (ContainerJSON.ID c) < 12 \<or>
     (\<exists>k. LookupHost e k (ContainerConfig.Hostname (ContainerJSON.Config c)) = Inr [])"
proof (induction e c a w rule: resolveLoop.induct)
  case (1 e c a w)
  show ?case
  proof (cases "a < maxAttempts")
    case False
    with "1.prems" show ?thesis
      by (subst (asm) resolveLoop.simps) (auto simp: slice12_def split: if_splits)
  next
    case True
    show ?thesis
    proof (cases "LookupHost e (lookups w) (ContainerConfig.Hostname (ContainerJSON.Config c))")
      case (Inl err)
      with True "1.prems" have
        "fst (resolveLoop e c (a + 1)
           (Infof (retrying (a + 1) maxAttempts)
                  (Sleep 2 (w\<lparr>lookups := lookups w + 1\<rparr>)))) = Panic p"
        by (subst (asm) resolveLoop.simps) simp
      from "1.IH" [OF True Inl this] show ?thesis .
    next
      case (Inr resolved)
      with True "1.prems" show ?thesis
        by (subst (asm) resolveLoop.simps) (auto split: list.splits)
    qed
  qed
qed


lemma getCertificate_Error_iff:
  "(\<exists>err. getCertificate e h = Error err) \<longleftrightarrow>
     isl (EffectiveTLDPlusOne e h) \<or>
     (\<exists>d. EffectiveTLDPlusOne e h = Inr d \<and> cert_store e d = None)"
  by (auto simp: getCertificate_def getRootDomain_def FindCertificateForHost_def
           split: sum.splits option.splits)


subsection \<open>Evaluation at the concrete inputs\<close>

lemmas fixture_defs =
  env_ok_def env_flaky_def env_late_def env_down_def env_nocert_def env_nostart_def env_nostop_def
  container0_def container_noport_def container_ip_def container_short_def
  world0_def world1_def tunnel0_def

lemmas handler_defs =
  handleStartEvent_def handleDieEvent_def HandleEvent_def logged_def getLabel_def
  heraHostname_def heraPort_def heraIP_def heraProtocol_def slice12_def
  resolveHostname_def maxAttempts_def getCertificate_def getRootDomain_def
  FindCertificateForHost_def GetTunnelForHost_def Start_def Stop_def Put_def Remove_def
  NewTunnel_def Infof_def Errorlog_def Sleep_def Let_def

lemma start_c0:
  "handleStartEvent env_ok \<lparr>Status = ''start'', Message.ID = ''c0''\<rparr> world0 = (Ok (), world1)"
  by (simp add: fixture_defs handler_defs resolveLoop.simps)



text \<open>
  Claim C7. For every opted-in container, if certificate resolution fails for its
  hostname (the library cannot reduce the hostname, or the store holds no certificate for
  the root domain), the start sequence never returns \<open>nil\<close>, invokes \<open>Start\<close> on no tunnel
  and leaves the registry as it was. It ends in a returned error, except that it
  panics where the container ID has fewer than 12 bytes or a lookup answers an empty list.
\<close>

theorem handleStartEvent_no_certificate:
  assumes "Inspect e (Message.ID ev) = Inr c"
    and "getLabel heraHostname c \<noteq> []" and "getLabel heraPort c \<noteq> []"
    and "isl (EffectiveTLDPlusOne e (getLabel heraHostname c)) \<or>
         (\<exists>d. EffectiveTLDPlusOne e (getLabel heraHostname c) = Inr d \<and> cert_store e d = None)"
  shows "fst (handleStartEvent e ev w) \<noteq> Ok () \<and>
    started (snd (handleStartEvent e ev w)) = started w \<and>
    registry (snd (handleStartEvent e ev w)) = registry w \<and>
    (12 \<le> length (ContainerJSON.ID c) \<and>
     (\<forall>k. LookupHost e k (ContainerConfig.Hostname (ContainerJSON.Config c)) \<noteq> Inr [])
       \<longrightarrow> (\<exists>err. fst (handleStartEvent e ev w) = Error err))"
proof (cases "length (ContainerJSON.ID c) < 12")
  case True
  from handleStartEvent_short_id [OF assms(1-3) True] True show ?thesis by simp
next
  case False
  then have long: "12 \<le> length (ContainerJSON.ID c)" by simp
  let ?w0 = "Infof (connecting (take 12 (ContainerJSON.ID c))) w"
  note unf = handleStartEvent_opted_in [OF assms(1-3) long, of w]
  from assms(4) obtain cerr where cert: "getCertificate e (getLabel heraHostname c) = Error cerr"
    using getCertificate_Error_iff by blast
  obtain r w1 where res: "resolveHostname e c ?w0 = (r, w1)" by force
  from resolveHostname_frame [OF res]
  have fr: "registry w1 = registry w" "started w1 = started w"
    by (simp_all add: Infof_def)
  show ?thesis
  proof (cases r)
    case (Ok ip)
    with res unf cert fr show ?thesis by simp
  next
    case (Error err)
    with res unf fr show ?thesis by simp
  next
    case (Panic p)
    with res have "fst (resolveLoop e c 0 ?w0) = Panic p"
      by (simp add: resolveHostname_def)
    from resolveLoop_panic_cause [OF this] long
    have "\<exists>k. LookupHost e k (ContainerConfig.Hostname (ContainerJSON.Config c)) = Inr []"
      by simp
    with Panic res unf fr show ?thesis by auto
  qed
qed

theorem handleStartEvent_no_certificate_witness:
  "cert_store env_nocert ''example.com'' = None \<and>
   handleStartEvent env_nocert \<lparr>Status = ''start'', Message.ID = ''c0''\<rparr> world0 =
     (Error (CertificateError ''no certificate for host''),
      snd (handleStartEvent env_nocert \<lparr>Status = ''start'', Message.ID = ''c0''\<rparr> world0)) \<and>
   started (snd (handleStartEvent env_nocert \<lparr>Status = ''start'', Message.ID = ''c0''\<rparr> world0)) = [] \<and>
   registry (snd (handleStartEvent env_nocert \<lparr>Status = ''start'', Message.ID = ''c0''\<rparr> world0))
     = Map.empty"
proof -
  let ?ev = "\<lparr>Status = ''start'', Message.ID = ''c0''\<rparr>"
  have i: "Inspect env_nocert (Message.ID ?ev) = Inr container0"
    by (simp add: env_nocert_def env_ok_def)
  have h: "getLabel heraHostname container0 \<noteq> []" and p: "getLabel heraPort container0 \<noteq> []"
    by (simp_all add: getLabel_def heraHostname_def heraPort_def container0_def)
  have c: "isl (EffectiveTLDPlusOne env_nocert (getLabel heraHostname container0)) \<or>
         (\<exists>d. EffectiveTLDPlusOne env_nocert (getLabel heraHostname container0) = Inr d \<and>
              cert_store env_nocert d = None)"
    by (simp add: getLabel_def heraHostname_def container0_def env_nocert_def env_ok_def)
  have long: "12 \<le> length (ContainerJSON.ID container0)"
    and ans: "\<forall>k. LookupHost env_nocert k (ContainerConfig.Hostname (ContainerJSON.Config container0))
                  \<noteq> Inr []"
    by (simp_all add: container0_def env_nocert_def env_ok_def)
  have ev: "fst (handleStartEvent env_nocert ?ev world0) =
              Error (CertificateError ''no certificate for host'')"
    by (simp add: fixture_defs handler_defs resolveLoop.simps)
  have empty: "started world0 = []" "registry world0 = Map.empty"
    by (simp_all add: world0_def)
  from handleStartEvent_no_certificate [OF i h p c, of world0] long ans ev empty
  show ?thesis
    by (simp add: env_nocert_def prod_eq_iff)
qed

section \<open>Registration by the start sequence\<close>

text \<open>
  When the start sequence of an opted-in container returns \<open>nil\<close> and the transport
  started the tunnel without error, the tunnel on which \<open>Start\<close> was invoked is the
  registry's entry for the container's hostname, and no other entry has changed.
\<close>

lemma handleStartEvent_registers:
  assumes "Inspect e (Message.ID ev) = Inr c"
    and "getLabel heraHostname c \<noteq> []" and "getLabel heraPort c \<noteq> []"
    and "handleStartEvent e ev w = (Ok (), w')"
  shows "\<exists>t. started w' = started w @ [t] \<and>
            TunnelConfig.Hostname (Tunnel.Config t) = getLabel heraHostname c \<and>
            registry w' =
              (if transport_start e t = None then (registry w)(getLabel heraHostname c \<mapsto> t)
               else registry w)"
proof (cases "length (ContainerJSON.ID c) < 12")
  case True
  from handleStartEvent_short_id [OF assms(1-3) True] assms(4) show ?thesis by simp
next
  case False
  then have long: "12 \<le> length (ContainerJSON.ID c)" by simp
  let ?w0 = "Infof (connecting (take 12 (ContainerJSON.ID c))) w"
  note unf = handleStartEvent_opted_in [OF assms(1-3) long, of w]
  obtain r w1 where res: "resolveHostname e c ?w0 = (r, w1)" by force
  from resolveHostname_frame [OF res]
  have fr: "registry w1 = registry w" "started w1 = started w"
    by (simp_all add: Infof_def)
  from assms(4) unf res obtain ip where r: "r = Ok ip"
    by (cases r) auto
  from assms(4) unf res r obtain cert where
    cert: "getCertificate e (getLabel heraHostname c) = Ok cert"
    by (cases "getCertificate e (getLabel heraHostname c)") auto
  from assms(4) unf res r cert fr show ?thesis
    by (auto simp: Start_frame NewTunnel_def)
qed

text \<open>
  Claim C1, at an input where it fails. The container \<open>c0\<close> carries both opt-in labels,
  its hostname resolves at the first lookup and the store holds the certificate of its
  root domain, but the transport fails to start the tunnel. \<open>handleStartEvent\<close> drops
  what \<open>Start\<close> returns: it returns \<open>nil\<close>, \<open>Start\<close> has been invoked on the tunnel, and the
  registry has no entry for the hostname.
\<close>

theorem handleStartEvent_drops_Start_error:
  "Inspect env_nostart ''c0'' = Inr container0 \<and>
   getLabel heraHostname container0 = ''a.example.com'' \<and>
   getLabel heraPort container0 = ''8080'' \<and>
   fst (resolveHostname env_nostart container0
          (Infof (connecting (take 12 (ContainerJSON.ID container0))) world0)) = Ok ''1.2.3.4'' \<and>
   getCertificate env_nostart ''a.example.com'' = Ok (Cert ''example.com'') \<and>
   fst (Start env_nostart tunnel0 world0) = Error (TunnelOperationError ''start failed'') \<and>
   fst (handleStartEvent env_nostart \<lparr>Status = ''start'', Message.ID = ''c0''\<rparr> world0) = Ok () \<and>
   started (snd (handleStartEvent env_nostart \<lparr>Status = ''start'', Message.ID = ''c0''\<rparr> world0))
     = [tunnel0] \<and>
   registry (snd (handleStartEvent env_nostart \<lparr>Status = ''start'', Message.ID = ''c0''\<rparr> world0))
     ''a.example.com'' = None"
  by (simp add: fixture_defs handler_defs resolveLoop.simps)

section \<open>The registry invariant holds in every reachable world\<close>

lemma registry_wf_empty: "registry_wf Map.empty"
  by (simp add: registry_wf_def)

lemma registry_wf_put:
  "registry_wf reg \<Longrightarrow> registry_wf (reg(TunnelConfig.Hostname (Tunnel.Config t) \<mapsto> t))"
  by (simp add: registry_wf_def)

lemma registry_wf_remove: "registry_wf reg \<Longrightarrow> registry_wf (reg(h := None))"
  by (simp add: registry_wf_def)

lemma handleStartEvent_registry:
  "registry (snd (handleStartEvent e ev w)) = registry w \<or>
   (\<exists>t. registry (snd (handleStartEvent e ev w)) =
          (registry w)(TunnelConfig.Hostname (Tunnel.Config t) \<mapsto> t))"
proof (cases "Inspect e (Message.ID ev)")
  case (Inl err)
  then show ?thesis by (simp add: handleStartEvent_def)
next
  case (Inr c)
  show ?thesis
  proof (cases "getLabel heraHostname c \<noteq> [] \<and> getLabel heraPort c \<noteq> []")
    case False
    with Inr show ?thesis by (auto simp: handleStartEvent_def Let_def)
  next
    case True
    obtain r w' where run: "handleStartEvent e ev w = (r, w')" by force
    show ?thesis
    proof (cases "r = Ok ()")
      case ok: True
      from True have hl: "getLabel heraHostname c \<noteq> []" and pl: "getLabel heraPort c \<noteq> []"
        by simp_all
      from run ok have "handleStartEvent e ev w = (Ok (), w')" by simp
      from handleStartEvent_registers [OF Inr hl pl this] obtain t where
        t: "TunnelConfig.Hostname (Tunnel.Config t) = getLabel heraHostname c"
           "registry w' =
              (if transport_start e t = None then (registry w)(getLabel heraHostname c \<mapsto> t)
               else registry w)"
        by blast
      show ?thesis
      proof (cases "transport_start e t = None")
        case True
        with t run have "registry (snd (handleStartEvent e ev w)) =
          (registry w)(TunnelConfig.Hostname (Tunnel.Config t) \<mapsto> t)" by simp
        then show ?thesis by blast
      next
        case False
        with t run show ?thesis by simp
      qed
    next
      case False
      show ?thesis
      proof (cases "length (ContainerJSON.ID c) < 12")
        case True
        from handleStartEvent_short_id [OF Inr _ _ True] \<open>getLabel heraHostname c \<noteq> [] \<and> getLabel heraPort c \<noteq> []\<close>
        show ?thesis by simp
      next
        case short: False
        let ?w0 = "Infof (connecting (take 12 (ContainerJSON.ID c))) w"
        from short True have unf: "handleStartEvent e ev w = 
           (case resolveHostname e c ?w0 of
        (Error err, w1) \<Rightarrow> (Error err, w1)
      | (Panic p, w1) \<Rightarrow> (Panic p, w1)
      | (Ok resolved_ip, w1) \<Rightarrow>
          (case getCertificate e (getLabel heraHostname c) of
             Error err \<Rightarrow> (Error err, w1)
           | Panic p \<Rightarrow> (Panic p, w1)
           | Ok cert \<Rightarrow>
               (Ok (), snd (Start e
                  (NewTunnel
                     \<lparr>IP = (if getLabel heraIP c \<noteq> [] then getLabel heraIP c else resolved_ip),
                      TunnelConfig.Hostname = getLabel heraHostname c,
                      Port = getLabel heraPort c,
                      Protocol = (if getLabel heraProtocol c = [] then ''http''
                                  else getLabel heraProtocol c)\<rparr> cert) w1))))"
          using handleStartEvent_opted_in [OF Inr, of w] by simp
        obtain r1 w1 where res: "resolveHostname e c ?w0 = (r1, w1)" by force
        from resolveHostname_frame [OF res] have fr: "registry w1 = registry w"
          by (simp add: Infof_def)
        from run False unf res fr show ?thesis
          by (cases r1; cases "getCertificate e (getLabel heraHostname c)") auto
      qed
    qed
  qed
qed

lemma handleDieEvent_registry:
  "registry (snd (handleDieEvent e ev w)) = registry w \<or>
   (\<exists>h. registry (snd (handleDieEvent e ev w)) = (registry w)(h := None))"
  by (auto simp: handleDieEvent_def GetTunnelForHost_def Stop_def Remove_def Let_def
        split: sum.splits option.splits)

lemma HandleEvent_registry_wf:
  assumes "registry_wf (registry w)"
  shows "registry_wf (registry (snd (HandleEvent e ev w)))"
proof -
  have l: "registry (snd (logged rw)) = registry (snd rw)" for rw
    by (cases rw; cases "fst rw") (auto simp: logged_def Errorlog_def)
  from handleStartEvent_registry [of e ev w] assms
  have s: "registry_wf (registry (snd (handleStartEvent e ev w)))"
    by (auto simp: registry_wf_put)
  from handleDieEvent_registry [of e ev w] assms
  have d: "registry_wf (registry (snd (handleDieEvent e ev w)))"
    by (auto simp: registry_wf_remove)
  from s d assms show ?thesis
    by (simp add: HandleEvent_def l)
qed

lemma HandleContainer_registry_wf:
  assumes "registry_wf (registry w)"
  shows "registry_wf (registry (snd (HandleContainer e ident w)))"
  using handleStartEvent_registry [of e "\<lparr>Status = [], Message.ID = ident\<rparr>" w] assms
  by (auto simp: HandleContainer_def registry_wf_put)

lemma reachable_registry_wf: "reachable w \<Longrightarrow> registry_wf (registry w)"
proof (induction rule: reachable.induct)
  case (initial w)
  then show ?case by (simp add: registry_wf_empty)
next
  case (event w e ev r w')
  from HandleEvent_registry_wf [OF event.IH, of e ev] event.hyps(2) show ?case by simp
next
  case (container w e ident r' w')
  from HandleContainer_registry_wf [OF container.IH, of e ident] container.hyps(2)
  show ?case by simp
qed

lemma reachable_world1: "reachable world1"
proof -
  have "reachable world0" by (rule reachable.initial) (simp add: world0_def)
  moreover have "HandleEvent env_ok \<lparr>Status = ''start'', Message.ID = ''c0''\<rparr> world0
                   = (Returned, world1)"
    by (simp add: HandleEvent_def logged_def start_c0)
  ultimately show ?thesis by (rule reachable.event)
qed

section \<open>The stop sequence\<close>

lemma handleDieEvent_no_panic: "fst (handleDieEvent e ev w) \<noteq> Panic p"
  by (simp add: handleDieEvent_def GetTunnelForHost_def Stop_def Let_def
        split: sum.splits option.splits)

text \<open>
  Claim C2. For every die event whose container has a non-empty hostname label and a
  tunnel registered under that hostname, in a registry that files every tunnel under its
  own hostname (as the registry of every reachable world does): \<open>Stop\<close> is invoked on
  that tunnel once; when the transport stops it
  without error the sequence returns \<open>nil\<close> and the registry has lost exactly the entry
  of that hostname; when the stop fails the sequence returns the error and the registry
  is as it was.
\<close>

theorem handleDieEvent_removes_after_stop:
  assumes "registry_wf (registry w)"
    and "Inspect e (Message.ID ev) = Inr c"
    and "getLabel ''hera.hostname'' c \<noteq> []"
    and "registry w (getLabel ''hera.hostname'' c) = Some t"
  shows "(transport_stop e t = None \<longrightarrow>
            handleDieEvent e ev w =
              (Ok (), w\<lparr>stopped := stopped w @ [t],
                        registry := (registry w)(getLabel ''hera.hostname'' c := None)\<rparr>)) \<and>
         (\<forall>err. transport_stop e t = Some err \<longrightarrow>
            handleDieEvent e ev w = (Error err, w\<lparr>stopped := stopped w @ [t]\<rparr>))"
proof -
  from assms(1,4) have "TunnelConfig.Hostname (Tunnel.Config t) = getLabel ''hera.hostname'' c"
    by (simp add: registry_wf_def)
  with assms(2-4) show ?thesis
    by (simp add: handleDieEvent_def GetTunnelForHost_def Stop_def Remove_def Let_def)
qed

theorem handleDieEvent_removes_after_stop_witness:
  "registry_wf (registry world1) \<and> registry world1 ''a.example.com'' = Some tunnel0 \<and>
   handleDieEvent env_ok \<lparr>Status = ''die'', Message.ID = ''c0''\<rparr> world1 =
     (Ok (), world1\<lparr>stopped := [tunnel0], registry := Map.empty\<rparr>) \<and>
   handleDieEvent env_nostop \<lparr>Status = ''die'', Message.ID = ''c0''\<rparr> world1 =
     (Error (TunnelOperationError ''stop failed''), world1\<lparr>stopped := [tunnel0]\<rparr>)"
proof -
  let ?ev = "\<lparr>Status = ''die'', Message.ID = ''c0''\<rparr>"
  have wf: "registry_wf (registry world1)"
    using reachable_world1 by (rule reachable_registry_wf)
  have i: "Inspect env_ok (Message.ID ?ev) = Inr container0"
    "Inspect env_nostop (Message.ID ?ev) = Inr container0"
    by (simp_all add: env_ok_def env_nostop_def)
  have h: "getLabel ''hera.hostname'' container0 = ''a.example.com''"
    by (simp add: getLabel_def container0_def)
  have r: "registry world1 (getLabel ''hera.hostname'' container0) = Some tunnel0"
    by (simp add: h world1_def)
  have s: "transport_stop env_ok tunnel0 = None"
    "transport_stop env_nostop tunnel0 = Some (TunnelOperationError ''stop failed'')"
    by (simp_all add: env_ok_def env_nostop_def)
  have w: "stopped world1 = []" "(registry world1)(''a.example.com'' := None) = Map.empty"
    by (simp_all add: world1_def)
  from handleDieEvent_removes_after_stop [OF wf i(1) _ r] handleDieEvent_removes_after_stop [OF wf i(2) _ r]
    wf r s
  show ?thesis
    by (simp add: h w)
qed

text \<open>
  Claim C9. For every die event whose container has a non-empty hostname label and no
  tunnel registered under that hostname, the stop sequence returns the not-found error
  and the world, the registry included, is as it was: \<open>Stop\<close> is invoked on nothing.
\<close>

theorem handleDieEvent_not_found:
  assumes "Inspect e (Message.ID ev) = Inr c"
    and "getLabel ''hera.hostname'' c \<noteq> []"
    and "registry w (getLabel ''hera.hostname'' c) = None"
  shows "handleDieEvent e ev w = (Error (TunnelNotFoundError ''no tunnel for host''), w)"
  using assms by (simp add: handleDieEvent_def GetTunnelForHost_def Let_def)

theorem handleDieEvent_not_found_witness:
  "getLabel ''hera.hostname'' container0 \<noteq> [] \<and> registry world0 ''a.example.com'' = None \<and>
   handleDieEvent env_ok \<lparr>Status = ''die'', Message.ID = ''c0''\<rparr> world0 =
     (Error (TunnelNotFoundError ''no tunnel for host''), world0)"
proof -
  let ?ev = "\<lparr>Status = ''die'', Message.ID = ''c0''\<rparr>"
  have i: "Inspect env_ok (Message.ID ?ev) = Inr container0"
    by (simp add: env_ok_def)
  have h: "getLabel ''hera.hostname'' container0 = ''a.example.com''"
    by (simp add: getLabel_def container0_def)
  have r: "registry world0 (getLabel ''hera.hostname'' container0) = None"
    by (simp add: world0_def)
  from handleDieEvent_not_found [OF i _ r] r show ?thesis
    by (simp add: h)
qed

section \<open>Dispatch\<close>

text \<open>
  Claim C3. \<open>HandleEvent\<close> runs the start sequence for the status \<open>start\<close>, the stop
  sequence for the status \<open>die\<close>, and leaves the world as it is for any other status.
  When the sequence returns \<open>nil\<close>, \<open>HandleEvent\<close> returns with the world the sequence
  left; when the sequence returns an error, \<open>HandleEvent\<close> returns all the same, and the
  only trace of the error is one more line of the error log, its message. A die event
  always returns; the only way \<open>HandleEvent\<close> does not return is a panic of the start
  sequence itself, which is no returned error.
\<close>

theorem HandleEvent_dispatch:
  "(Status ev = ''start'' \<longrightarrow>
      (\<forall>w1. handleStartEvent e ev w = (Ok (), w1) \<longrightarrow> HandleEvent e ev w = (Returned, w1)) \<and>
      (\<forall>err w1. handleStartEvent e ev w = (Error err, w1) \<longrightarrow>
         HandleEvent e ev w = (Returned, w1\<lparr>logs := logs w1 @ [LogError (Error_msg err)]\<rparr>))) \<and>
   (Status ev = ''die'' \<longrightarrow>
      (\<forall>w1. handleDieEvent e ev w = (Ok (), w1) \<longrightarrow> HandleEvent e ev w = (Returned, w1)) \<and>
      (\<forall>err w1. handleDieEvent e ev w = (Error err, w1) \<longrightarrow>
         HandleEvent e ev w = (Returned, w1\<lparr>logs := logs w1 @ [LogError (Error_msg err)]\<rparr>)) \<and>
      fst (HandleEvent e ev w) = Returned) \<and>
   (Status ev \<noteq> ''start'' \<and> Status ev \<noteq> ''die'' \<longrightarrow> HandleEvent e ev w = (Returned, w)) \<and>
   (\<forall>p. fst (HandleEvent e ev w) = Panicked p \<longleftrightarrow>
          Status ev = ''start'' \<and> fst (handleStartEvent e ev w) = Panic p)"
proof -
  have lg: "fst (logged rw) = Panicked p \<longleftrightarrow> fst rw = Panic p" for rw p
    by (cases rw; cases "fst rw") (auto simp: logged_def)
  have ret: "fst (logged rw) = Returned \<longleftrightarrow> (\<forall>p. fst rw \<noteq> Panic p)" for rw
    by (cases rw; cases "fst rw") (auto simp: logged_def)
  have die: "fst (logged (handleDieEvent e ev w)) = Returned"
    unfolding ret using handleDieEvent_no_panic by blast
  have start: "Status ev = ''start'' \<longrightarrow>
      (\<forall>w1. handleStartEvent e ev w = (Ok (), w1) \<longrightarrow> HandleEvent e ev w = (Returned, w1)) \<and>
      (\<forall>err w1. handleStartEvent e ev w = (Error err, w1) \<longrightarrow>
         HandleEvent e ev w = (Returned, w1\<lparr>logs := logs w1 @ [LogError (Error_msg err)]\<rparr>))"
    by (simp add: HandleEvent_def logged_def Errorlog_def)
  have stop: "Status ev = ''die'' \<longrightarrow>
      (\<forall>w1. handleDieEvent e ev w = (Ok (), w1) \<longrightarrow> HandleEvent e ev w = (Returned, w1)) \<and>
      (\<forall>err w1. handleDieEvent e ev w = (Error err, w1) \<longrightarrow>
         HandleEvent e ev w = (Returned, w1\<lparr>logs := logs w1 @ [LogError (Error_msg err)]\<rparr>)) \<and>
      fst (HandleEvent e ev w) = Returned"
    using die by (simp add: HandleEvent_def logged_def Errorlog_def)
  have other: "Status ev \<noteq> ''start'' \<and> Status ev \<noteq> ''die'' \<longrightarrow> HandleEvent e ev w = (Returned, w)"
    by (simp add: HandleEvent_def)
  have panic: "\<forall>p. fst (HandleEvent e ev w) = Panicked p \<longleftrightarrow>
          Status ev = ''start'' \<and> fst (handleStartEvent e ev w) = Panic p"
    using handleDieEvent_no_panic [of e ev w] by (simp add: HandleEvent_def lg)
  from start stop other panic show ?thesis by blast
qed

theorem HandleEvent_dispatch_witness:
  "HandleEvent env_ok \<lparr>Status = ''start'', Message.ID = ''c0''\<rparr> world0 = (Returned, world1) \<and>
   fst (handleStartEvent env_down \<lparr>Status = ''start'', Message.ID = ''c0''\<rparr> world0) =
     Error (ResolutionError ''Unable to connect to 4c01db0b339c'') \<and>
   HandleEvent env_down \<lparr>Status = ''start'', Message.ID = ''c0''\<rparr> world0 =
     (Returned,
      (snd (handleStartEvent env_down \<lparr>Status = ''start'', Message.ID = ''c0''\<rparr> world0))
        \<lparr>logs := logs (snd (handleStartEvent env_down \<lparr>Status = ''start'', Message.ID = ''c0''\<rparr> world0))
                  @ [LogError ''Unable to connect to 4c01db0b339c'']\<rparr>) \<and>
   HandleEvent env_ok \<lparr>Status = ''die'', Message.ID = ''c0''\<rparr> world1 =
     (Returned, world1\<lparr>stopped := [tunnel0], registry := Map.empty\<rparr>) \<and>
   HandleEvent env_ok \<lparr>Status = ''die'', Message.ID = ''c0''\<rparr> world0 =
     (Returned, world0\<lparr>logs := [LogError ''no tunnel for host'']\<rparr>) \<and>
   HandleEvent env_ok \<lparr>Status = ''stop'', Message.ID = ''c0''\<rparr> world1 = (Returned, world1) \<and>
   fst (HandleEvent env_ok \<lparr>Status = ''start'', Message.ID = ''short''\<rparr> world0)
     = Panicked ''slice bounds out of range''"
proof -
  let ?start = "\<lparr>Status = ''start'', Message.ID = ''c0''\<rparr>"
  let ?die = "\<lparr>Status = ''die'', Message.ID = ''c0''\<rparr>"
  let ?stop = "\<lparr>Status = ''stop'', Message.ID = ''c0''\<rparr>"
  let ?short = "\<lparr>Status = ''start'', Message.ID = ''short''\<rparr>"
  have f_down: "fst (handleStartEvent env_down ?start world0) =
     Error (ResolutionError ''Unable to connect to 4c01db0b339c'')"
    by (simp add: fixture_defs handler_defs resolveLoop.simps)
  then have down: "handleStartEvent env_down ?start world0 =
     (Error (ResolutionError ''Unable to connect to 4c01db0b339c''),
      snd (handleStartEvent env_down ?start world0))"
    by (simp add: prod_eq_iff)
  have die1: "handleDieEvent env_ok ?die world1 =
     (Ok (), world1\<lparr>stopped := [tunnel0], registry := Map.empty\<rparr>)"
    by (simp add: fixture_defs handler_defs)
  have die0: "handleDieEvent env_ok ?die world0 =
     (Error (TunnelNotFoundError ''no tunnel for host''), world0)"
    by (simp add: fixture_defs handler_defs)
  have short: "fst (handleStartEvent env_ok ?short world0) = Panic ''slice bounds out of range''"
    by (simp add: fixture_defs handler_defs)
  have st: "Status ?start = ''start''" "Status ?die = ''die''" "Status ?short = ''start''"
    "Status ?stop \<noteq> ''start'' \<and> Status ?stop \<noteq> ''die''"
    by simp_all
  have l0: "logs world0 = []" by (simp add: world0_def)
  from HandleEvent_dispatch [of ?start env_ok world0] HandleEvent_dispatch [of ?start env_down world0]
    HandleEvent_dispatch [of ?die env_ok world1] HandleEvent_dispatch [of ?die env_ok world0]
    HandleEvent_dispatch [of ?stop env_ok world1] HandleEvent_dispatch [of ?short env_ok world0]
    start_c0 down die1 die0 short f_down
  show ?thesis
    by (simp add: l0)
qed

section \<open>Root domain and certificate\<close>



end
